theory Spec2Isabelle
  imports Main
begin

section \<open>JavaScript values\<close>

text \<open>
  The dispatcher node (index.js, newest revision) handles untyped JavaScript values: resource
  ids and types are tested with \<open>typeof\<close>, cached values are compared with \<open>===\<close>,
  against \<open>null\<close> and against \<open>undefined\<close>, and values are turned into strings by
  \<open>Array.prototype.join\<close>, by \<open>+\<close> with a string and as property keys. The values are
  modelled by what these operations see of them:
  \<^item> \<open>JNum s\<close> is the number whose \<open>ToString\<close> is \<open>s\<close> (\<open>''1''\<close>, \<open>''1.5''\<close>, \<open>''1e+21''\<close>,
    \<open>''NaN''\<close>). \<open>ToString\<close> tells all numbers apart but the two zeros, which \<open>===\<close> does
    not tell apart either. A string that is no number's \<open>ToString\<close> stands for no value.
  \<^item> \<open>JError m\<close> is the object \<open>new Error(m)\<close>.
  \<^item> \<open>JObj r s c\<close> is any other object (array, plain object, function), known by its
    reference \<open>r\<close>, which is what \<open>===\<close> compares, by the result \<open>s\<close> of \<open>ToString\<close> on
    it and by the result \<open>c\<close> of its conversion in \<open>'...' + object\<close>; a result \<open>None\<close>
    means that the conversion throws a \<open>TypeError\<close>, as it does for \<open>Object.create(null)\<close>.
\<close>

datatype jsval =
    JUndefined
  | JNull
  | JBool bool
  | JNum string
  | JStr string
  | JError string
  | JObj nat "string option" "string option"

abbreviation JNaN :: jsval where
  "JNaN \<equiv> JNum ''NaN''"

text \<open>What a call can throw: \<open>new Error(message)\<close>, or a \<open>TypeError\<close> of the runtime.\<close>

datatype thrown = ThrownError string | ThrownTypeError

text \<open>\<open>typeof v === 'string'\<close>\<close>

fun is_string :: "jsval \<Rightarrow> bool" where
  "is_string (JStr s) = True"
| "is_string v = False"

text \<open>What \<open>!v\<close> negates: \<open>ToBoolean\<close>.\<close>

fun truthy :: "jsval \<Rightarrow> bool" where
  "truthy JUndefined = False"
| "truthy JNull = False"
| "truthy (JBool b) = b"
| "truthy (JNum s) = (s \<noteq> ''0'' \<and> s \<noteq> ''NaN'')"
| "truthy (JStr s) = (s \<noteq> [])"
| "truthy (JError m) = True"
| "truthy (JObj r s c) = True"

text \<open>\<open>a === b\<close>: equality of primitives and of references, except that \<open>NaN\<close> equals nothing.\<close>

definition strict_eq :: "jsval \<Rightarrow> jsval \<Rightarrow> bool" where
  "strict_eq a b = (a = b \<and> a \<noteq> JNaN)"

text \<open>
  \<open>ToString\<close>, which \<open>join\<close> and property access use. \<open>Error.prototype.toString\<close> gives
  the name alone for an empty message.
\<close>

fun to_string :: "jsval \<Rightarrow> string option" where
  "to_string JUndefined = Some ''undefined''"
| "to_string JNull = Some ''null''"
| "to_string (JBool b) = Some (if b then ''true'' else ''false'')"
| "to_string (JNum s) = Some s"
| "to_string (JStr s) = Some s"
| "to_string (JError m) = Some (if m = [] then ''Error'' else ''Error: '' @ m)"
| "to_string (JObj r s c) = s"

text \<open>The string that \<open>'...' + v\<close> appends: as \<open>ToString\<close>, but for an object its own conversion.\<close>

fun concat_string :: "jsval \<Rightarrow> string option" where
  "concat_string (JObj r s c) = c"
| "concat_string v = to_string v"

subsection \<open>\<open>Array.prototype.join\<close>\<close>

text \<open>
  \<open>join\<close> turns \<open>undefined\<close> and \<open>null\<close> elements (and the holes of \<open>new Array(n)\<close>,
  which read as \<open>undefined\<close>) into the empty string and every other element into its
  \<open>ToString\<close>; it starts from the first element and appends separator and element for
  each further index. It throws where the conversion of an element throws.
\<close>

definition elem_string :: "jsval \<Rightarrow> string option" where
  "elem_string v = (if v = JUndefined \<or> v = JNull then Some [] else to_string v)"

fun join_loop :: "string \<Rightarrow> jsval list \<Rightarrow> string \<Rightarrow> thrown + string" where
  "join_loop sep [] r = Inr r"
| "join_loop sep (x # xs) r =
     (case elem_string x of
        None \<Rightarrow> Inl ThrownTypeError
      | Some s \<Rightarrow> join_loop sep xs (r @ sep @ s))"

definition js_join :: "string \<Rightarrow> jsval list \<Rightarrow> thrown + string" where
  "js_join sep arr =
     (case arr of
        [] \<Rightarrow> Inr []
      | x # xs \<Rightarrow>
          (case elem_string x of
             None \<Rightarrow> Inl ThrownTypeError
           | Some s \<Rightarrow> join_loop sep xs s))"

section \<open>The key helper \<open>ok\<close>\<close>

text \<open>
  \<^verbatim>\<open>
  Node.prototype.ok = function () {
      var length = arguments.length;
      if (length === 0) { throw new Error('arguments must not be empty'); }
      var arr = new Array(length);
      for (var i = 0; i < length; i++) { arr[i] = arguments[i]; }
      return arr.join('~');
  };
  \<close>
  The \<open>for\<close> loop is \<open>ok_loop\<close>; a thrown error is \<open>Inl\<close>.
\<close>

function ok_loop :: "jsval list \<Rightarrow> nat \<Rightarrow> nat \<Rightarrow> jsval list \<Rightarrow> jsval list" where
  "ok_loop arguments len i arr =
     (if i < len then ok_loop arguments len (Suc i) (arr[i := arguments ! i]) else arr)"
  by pat_completeness auto
termination
  by (relation "measure (\<lambda>(arguments, len, i, arr). len - i)") auto

declare ok_loop.simps [simp del]

definition ok :: "jsval list \<Rightarrow> thrown + string" where
  "ok arguments =
     (let len = length arguments in
      if len = 0 then Inl (ThrownError ''arguments must not be empty'')
      else js_join ''~'' (ok_loop arguments len 0 (replicate len JUndefined)))"

text \<open>
  The words of the specification, "the arguments joined with \<open>~\<close> in order": the string of
  each argument, with one \<open>~\<close> between neighbours. The string of an argument is written
  out kind by kind: nothing for \<open>null\<close> and \<open>undefined\<close>, the text of a string, \<open>true\<close> or
  \<open>false\<close>, the digits of a number, name and message of an error, and for any other
  object the string it converts to.
\<close>

fun argument_string :: "jsval \<Rightarrow> string" where
  "argument_string JUndefined = []"
| "argument_string JNull = []"
| "argument_string (JBool True) = ''true''"
| "argument_string (JBool False) = ''false''"
| "argument_string (JNum s) = s"
| "argument_string (JStr s) = s"
| "argument_string (JError []) = ''Error''"
| "argument_string (JError (c # cs)) = ''Error: '' @ c # cs"
| "argument_string (JObj r (Some s) c) = s"
| "argument_string (JObj r None c) = []"

text \<open>An argument that has a string: every value but an object whose conversion throws.\<close>

fun has_string :: "jsval \<Rightarrow> bool" where
  "has_string (JObj r None c) = False"
| "has_string v = True"

fun tilde_joined :: "string list \<Rightarrow> string" where
  "tilde_joined [] = []"
| "tilde_joined [s] = s"
| "tilde_joined (s # t # ts) = s @ ''~'' @ tilde_joined (t # ts)"

section \<open>The dispatcher node\<close>

text \<open>
  The model follows the newest revision of index.js, the one with \<open>attachRemoteCall\<close>,
  \<open>_allowedRemoteCalls\<close> and \<open>ok\<close>. An operation of the node takes the node's state and
  returns the new state with the list of what it did to its collaborators, in order.
  (An earlier revision of \<open>getsetnx\<close> is kept among the sources; on the leader it schedules
  \<open>this[resourceType]\<close> with \<open>resourceId\<close>, \<open>args\<close> and the first caller's \<open>next\<close>. The
  newest revision replaced that branch.)

  A function value is a \<open>callback\<close>: \<open>Next k\<close> is a caller's \<open>next\<close>, \<open>Queued key\<close> is the
  function that \<open>callbackQueue.add(key, next)\<close> returned to the first caller of \<open>key\<close>.
\<close>

datatype callback = Next nat | Queued string

datatype effect =
    ClusterGet string
  | ClusterSet string jsval
  | SetImmediate callback "jsval list"
  | SetImmediateRemoteCall jsval string "jsval list" callback
  | Apply string "jsval list" callback
  | Call callback "jsval list"
  | Connect string nat
  | ClientApply nat string "jsval list" callback
  | GossipRemovePeer string
  | Throw thrown

text \<open>
  \<^item> \<open>ClusterGet key\<close>, \<open>ClusterSet key v\<close>: \<open>cluster.get(key)\<close>, \<open>cluster.set(key, v)\<close> on the
    gossip store;
  \<^item> \<open>SetImmediate next args\<close>: \<open>setImmediate(next, args...)\<close>;
  \<^item> \<open>SetImmediateRemoteCall node method args next\<close>:
    \<open>setImmediate(this._remoteCall, node, method, args, next)\<close>;
  \<^item> \<open>Apply name args cb\<close>: \<open>this[name].apply(this, args)\<close>, where the array is \<open>args\<close>
    followed by the function \<open>cb\<close>;
  \<^item> \<open>Call next args\<close>: the direct call \<open>next(args...)\<close>;
  \<^item> \<open>Connect hostname port\<close>: \<open>new Peer(this._remoteCallMethods, hostname, port)\<close>;
  \<^item> \<open>ClientApply c m args next\<close>: \<open>m.apply(client, args)\<close> on the client of connection
    \<open>c\<close>, where the array is \<open>args\<close> followed by \<open>next\<close>;
  \<^item> \<open>GossipRemovePeer id\<close>: \<open>this.gossip.removePeer(id)\<close>;
  \<^item> \<open>Throw e\<close>: the operation ends by throwing \<open>e\<close> to its caller; nothing follows it.
\<close>

text \<open>
  A transport connection, as far as \<open>_remoteCall\<close> looks at it: \<open>remote.connected\<close>, the
  method names \<open>m\<close> for which \<open>remote.client[m]\<close> is defined, and the \<open>invoke\<close> closures
  registered with \<open>remote.once('connect', invoke)\<close>, each holding its \<open>method\<close>, \<open>args\<close> and
  \<open>next\<close>.
\<close>

record connection =
  connected :: bool
  client :: "string list"
  connect_once :: "(string \<times> jsval list \<times> callback) list"

text \<open>
  The state of a node: \<open>this.id\<close>; the own properties of \<open>_allowedRemoteCalls\<close>; the
  names \<open>m\<close> for which \<open>this[m]\<close> is a function (the methods of the prototype chain and
  the attached handlers); \<open>_remoteCallMethods\<close>; the local replica of \<open>gossip.cluster\<close>; the pending operations of
  the \<open>callback-queue\<close> module; \<open>_remotes\<close> (a peer id is absent, \<open>null\<close> or a reference
  to a connection); \<open>_remoteIds\<close>; what \<open>skiff.peerMeta\<close> answers; and the connection
  objects, a reference being an index.
\<close>

record node =
  node_id :: string
  allowedRemoteCalls :: "string \<rightharpoonup> jsval"
  methods :: "string list"
  remoteCallMethods :: "string list"
  cluster :: "string \<rightharpoonup> jsval"
  callbackQueue :: "string \<rightharpoonup> callback list"
  remotes :: "string \<rightharpoonup> nat option"
  remoteIds :: "string list"
  peerMeta :: "string \<rightharpoonup> string \<times> nat"
  connections :: "connection list"

text \<open>
  \<open>cluster.get(key)\<close>: the value that the last \<open>cluster.set(key, value)\<close> on this node or
  the replication stored, itself and not a copy; \<open>undefined\<close> for a key never set.
\<close>

definition cluster_get :: "node \<Rightarrow> string \<Rightarrow> jsval" where
  "cluster_get n key = (case cluster n key of None \<Rightarrow> JUndefined | Some v \<Rightarrow> v)"

text \<open>
  \<open>_allowedRemoteCalls\<close> is an object literal, so \<open>this._allowedRemoteCalls[name]\<close> is
  the own property when there is one and the property inherited from \<open>Object.prototype\<close>
  otherwise. The inherited properties are functions, and \<open>__proto__\<close> is the prototype
  object: all truthy.
\<close>

definition object_prototype_names :: "string list" where
  "object_prototype_names =
     [''constructor'', ''toString'', ''toLocaleString'', ''valueOf'', ''hasOwnProperty'',
      ''isPrototypeOf'', ''propertyIsEnumerable'', ''__proto__'', ''__defineGetter__'',
      ''__defineSetter__'', ''__lookupGetter__'', ''__lookupSetter__'']"

text \<open>Whether \<open>this._allowedRemoteCalls[name]\<close> is truthy.\<close>

definition allowedRemoteCalls_truthy :: "node \<Rightarrow> string \<Rightarrow> bool" where
  "allowedRemoteCalls_truthy n name =
     (case allowedRemoteCalls n name of
        Some v \<Rightarrow> truthy v
      | None \<Rightarrow> name \<in> set object_prototype_names)"

text \<open>
  The second check of \<open>getsetnx\<close> and \<open>update\<close> passes:
  \<open>typeof resourceType === 'string' && this._allowedRemoteCalls[resourceType]\<close>.
\<close>

fun resourceType_allowed :: "node \<Rightarrow> jsval \<Rightarrow> bool" where
  "resourceType_allowed n (JStr name) = allowedRemoteCalls_truthy n name"
| "resourceType_allowed n v = False"

subsection \<open>The callback queue\<close>

text \<open>
  Modelled from the spec: the \<open>callback-queue\<close> package that index.js requires is not
  among the sources. Section 4.2 (Request Coalescer): \<open>attach(key, completion)\<close> creates the
  pending operation with \<open>completion\<close> as its sole waiter and reports ownership when none
  exists for \<open>key\<close>, and appends \<open>completion\<close> to the waiters and reports non-ownership
  otherwise. In index.js ownership is the function that \<open>add\<close> returns, and
  non-ownership a falsy value (\<open>if (!callback) return\<close>).
\<close>

definition callbackQueue_add ::
  "(string \<rightharpoonup> callback list) \<Rightarrow> string \<Rightarrow> callback \<Rightarrow> (string \<rightharpoonup> callback list) \<times> callback option" where
  "callbackQueue_add q key next =
     (case q key of
        None \<Rightarrow> (q(key \<mapsto> [next]), Some (Queued key))
      | Some waiters \<Rightarrow> (q(key \<mapsto> waiters @ [next]), None))"

text \<open>
  Modelled from the spec: section 4.2, \<open>resolve(key, result-or-error)\<close> delivers the same
  result or error to every waiter in arrival order, then deletes the pending operation;
  resolving a key with no pending operation does nothing. It is what calling the
  function returned by \<open>add\<close> does.
\<close>

definition callbackQueue_resolve :: "node \<Rightarrow> string \<Rightarrow> jsval list \<Rightarrow> node \<times> effect list" where
  "callbackQueue_resolve n key args =
     (case callbackQueue n key of
        None \<Rightarrow> (n, [])
      | Some waiters \<Rightarrow>
          (n\<lparr>callbackQueue := (callbackQueue n)(key := None)\<rparr>, map (\<lambda>w. Call w args) waiters))"

text \<open>The call \<open>next(args...)\<close> of a function value.\<close>

fun call_callback :: "node \<Rightarrow> callback \<Rightarrow> jsval list \<Rightarrow> node \<times> effect list" where
  "call_callback n (Next k) args = (n, [Call (Next k) args])"
| "call_callback n (Queued key) args = callbackQueue_resolve n key args"

subsection \<open>\<open>getsetnx\<close>, \<open>update\<close>, \<open>del\<close>\<close>

text \<open>
  \<^verbatim>\<open>
  Node.prototype.getsetnx = function (resourceId, resourceType, args, next) {
      if (typeof resourceId !== 'string' || !resourceId) {
          return setImmediate(next, new Error('resourceId must be a truthy string'));
      }
      if (typeof resourceType !== 'string' || !this._allowedRemoteCalls[resourceType]) {
          return setImmediate(next, new Error('remote call ' + resourceType + ' is not allowed'));
      }
      var cluster = this.gossip.cluster;
      var operationKey = [ resourceType, resourceId ].join('~');
      var operationResult = cluster.get(operationKey);
      if (operationResult !== null && operationResult !== undefined) {
          return setImmediate(next, null, operationResult);
      }
      var callback = callbackQueue.add(operationKey, next);
      if (!callback) { return; }
      var currentLeader = cluster.get('leader');
      if (currentLeader === this.id) {
          args.unshift(operationKey, resourceId);
          args.push(callback);
          return this[resourceType].apply(this, args);
      }
      args.unshift(resourceId, resourceType);
      setImmediate(this._remoteCall, currentLeader, 'getsetnx', args, callback);
  };
  \<close>
  \<open>args\<close> is an array (a list of values). The handler \<open>this[resourceType]\<close> is the
  embedder's code, so calling it is an effect; the model records the call and does not
  run the function, also where the name is one of the node's own methods. Where
  \<open>this[resourceType]\<close> is not a function, \<open>apply\<close> throws a \<open>TypeError\<close>, after the
  pending operation was created. The error message is built before \<open>setImmediate\<close> is
  called, so a resource type whose conversion throws makes the call throw.
\<close>

definition getsetnx :: "node \<Rightarrow> jsval \<Rightarrow> jsval \<Rightarrow> jsval list \<Rightarrow> callback \<Rightarrow> node \<times> effect list" where
  "getsetnx n resourceId resourceType args next =
     (if \<not> is_string resourceId \<or> \<not> truthy resourceId then
        (n, [SetImmediate next [JError ''resourceId must be a truthy string'']])
      else if \<not> resourceType_allowed n resourceType then
        (case concat_string resourceType of
           None \<Rightarrow> (n, [Throw ThrownTypeError])
         | Some name \<Rightarrow>
             (n, [SetImmediate next [JError (''remote call '' @ name @ '' is not allowed'')]]))
      else
        case js_join ''~'' [resourceType, resourceId] of
          Inl e \<Rightarrow> (n, [Throw e])
        | Inr operationKey \<Rightarrow>
        let operationResult = cluster_get n operationKey in
        if operationResult \<noteq> JNull \<and> operationResult \<noteq> JUndefined then
          (n, [ClusterGet operationKey, SetImmediate next [JNull, operationResult]])
        else
          case callbackQueue_add (callbackQueue n) operationKey next of
            (q, None) \<Rightarrow> (n\<lparr>callbackQueue := q\<rparr>, [ClusterGet operationKey])
          | (q, Some callback) \<Rightarrow>
              let currentLeader = cluster_get n ''leader'' in
              if strict_eq currentLeader (JStr (node_id n)) then
                (case to_string resourceType of
                   Some name \<Rightarrow>
                     if name \<in> set (methods n) then
                       (n\<lparr>callbackQueue := q\<rparr>,
                        [ClusterGet operationKey, ClusterGet ''leader'',
                         Apply name ([JStr operationKey, resourceId] @ args) callback])
                     else
                       (n\<lparr>callbackQueue := q\<rparr>,
                        [ClusterGet operationKey, ClusterGet ''leader'', Throw ThrownTypeError])
                 | None \<Rightarrow>
                     (n\<lparr>callbackQueue := q\<rparr>,
                      [ClusterGet operationKey, ClusterGet ''leader'', Throw ThrownTypeError]))
              else
                (n\<lparr>callbackQueue := q\<rparr>,
                 [ClusterGet operationKey, ClusterGet ''leader'',
                  SetImmediateRemoteCall currentLeader ''getsetnx''
                    ([resourceId, resourceType] @ args) callback]))"

text \<open>
  \<^verbatim>\<open>
  Node.prototype.update = function (resourceId, resourceType, value, next) {
      if (typeof resourceId !== 'string' || !resourceId) {
          return setImmediate(next, new Error('resourceId must be a truthy string'));
      }
      if (typeof resourceType !== 'string' || !this._allowedRemoteCalls[resourceType]) {
          return setImmediate(next, new Error('remote call ' + resourceType + ' is not allowed'));
      }
      if (value === undefined) {
          return setImmediate(next, new Error('value cant be set to undefined'));
      }
      var cluster = this.gossip.cluster;
      var operationKey = [ resourceType, resourceId ].join('~');
      var currentValue = cluster.get(operationKey);
      if (currentValue === value) { return setImmediate(next); }
      var currentLeader = cluster.get('leader');
      if (currentLeader === this.id) {
          cluster.set(operationKey, value);
          return setImmediate(next);
      }
      setImmediate(this._remoteCall, currentLeader, 'update', [ resourceId, resourceType, value ], next);
  };
  \<close>
\<close>

definition update :: "node \<Rightarrow> jsval \<Rightarrow> jsval \<Rightarrow> jsval \<Rightarrow> callback \<Rightarrow> node \<times> effect list" where
  "update n resourceId resourceType val next =
     (if \<not> is_string resourceId \<or> \<not> truthy resourceId then
        (n, [SetImmediate next [JError ''resourceId must be a truthy string'']])
      else if \<not> resourceType_allowed n resourceType then
        (case concat_string resourceType of
           None \<Rightarrow> (n, [Throw ThrownTypeError])
         | Some name \<Rightarrow>
             (n, [SetImmediate next [JError (''remote call '' @ name @ '' is not allowed'')]]))
      else if strict_eq val JUndefined then
        (n, [SetImmediate next [JError ''value cant be set to undefined'']])
      else
        case js_join ''~'' [resourceType, resourceId] of
          Inl e \<Rightarrow> (n, [Throw e])
        | Inr operationKey \<Rightarrow>
        let currentValue = cluster_get n operationKey in
        if strict_eq currentValue val then
          (n, [ClusterGet operationKey, SetImmediate next []])
        else
          let currentLeader = cluster_get n ''leader'' in
          if strict_eq currentLeader (JStr (node_id n)) then
            (n\<lparr>cluster := (cluster n)(operationKey \<mapsto> val)\<rparr>,
             [ClusterGet operationKey, ClusterGet ''leader'', ClusterSet operationKey val,
              SetImmediate next []])
          else
            (n, [ClusterGet operationKey, ClusterGet ''leader'',
                 SetImmediateRemoteCall currentLeader ''update''
                   [resourceId, resourceType, val] next]))"

text \<open>
  \<^verbatim>\<open>
  Node.prototype.del = function (resourceId, resourceType, next) {
      this.update(resourceId, resourceType, null, next);
  };
  \<close>
\<close>

definition del :: "node \<Rightarrow> jsval \<Rightarrow> jsval \<Rightarrow> callback \<Rightarrow> node \<times> effect list" where
  "del n resourceId resourceType next = update n resourceId resourceType JNull next"

subsection \<open>Remote calls and peer connections\<close>

text \<open>
  \<^verbatim>\<open>
  Node.prototype.peerOnline = function (node) { return this._remotes[node]; };
  \<close>
  The property key is the string of \<open>node\<close>, and reading it throws where that conversion
  throws. \<open>_remotes\<close> is an object literal: a key that is no own property but a property of
  \<open>Object.prototype\<close> reads as the inherited function or object, which is truthy and is
  no connection.
\<close>

datatype remote_value = RUndefined | RNull | RConnection nat | RInherited

definition peerOnline :: "node \<Rightarrow> jsval \<Rightarrow> thrown + remote_value" where
  "peerOnline n node =
     (case to_string node of
        None \<Rightarrow> Inl ThrownTypeError
      | Some key \<Rightarrow>
          Inr (case remotes n key of
                 Some (Some c) \<Rightarrow> RConnection c
               | Some None \<Rightarrow> RNull
               | None \<Rightarrow> if key \<in> set object_prototype_names then RInherited else RUndefined))"

text \<open>
  \<^verbatim>\<open>
  Node.prototype._remote = function (node) {
      var remote = this.peerOnline(node);
      if (!remote) {
          var meta = this.skiff.peerMeta(node);
          if (meta) {
              remote = this._remotes[node] = new Peer(this._remoteCallMethods, meta.hostname, meta.port);
          }
      }
      return remote;
  };
  \<close>
  A new connection is not yet connected, has no listener, and its client offers the
  methods it was created for.
\<close>

definition remote :: "node \<Rightarrow> jsval \<Rightarrow> thrown + node \<times> remote_value \<times> effect list" where
  "remote n node =
     (case peerOnline n node of
        Inl e \<Rightarrow> Inl e
      | Inr (RConnection c) \<Rightarrow> Inr (n, RConnection c, [])
      | Inr RInherited \<Rightarrow> Inr (n, RInherited, [])
      | Inr r \<Rightarrow>
          (case to_string node of
             None \<Rightarrow> Inl ThrownTypeError
           | Some key \<Rightarrow>
               (case peerMeta n key of
                  None \<Rightarrow> Inr (n, r, [])
                | Some (hostname, port) \<Rightarrow>
                    let c = length (connections n) in
                    Inr (n\<lparr>remotes := (remotes n)(key \<mapsto> Some c),
                           connections := connections n @
                             [\<lparr>connected = False, client = remoteCallMethods n, connect_once = []\<rparr>]\<rparr>,
                         RConnection c, [Connect hostname port]))))"

text \<open>
  \<^verbatim>\<open>
  Node.prototype._remoteCall = function (node, method, args, next) {
      var remote = this._remote(node);
      var invoke = function (client) {
          var m = client[method];
          if (!m) { return next(new Error('Method not found: ' + method)); }
          args.push(next);
          m.apply(client, args);
      };
      if (!remote) {
          return next(new Error('could not find remote metadata for URL ' + node));
      } else if (remote.connected) {
          invoke(remote.client);
      } else {
          remote.once('connect', invoke);
      }
  };
  \<close>
  The references kept in \<open>_remotes\<close> are those that \<open>_remote\<close> created, so they point to
  connection objects; for a reference that points to none the model does nothing. An
  inherited property of \<open>_remotes\<close> has neither \<open>connected\<close> nor \<open>once\<close>, so the last
  branch throws a \<open>TypeError\<close> for it.
\<close>

definition invoke :: "node \<Rightarrow> nat \<Rightarrow> string \<Rightarrow> jsval list \<Rightarrow> callback \<Rightarrow> node \<times> effect list" where
  "invoke n c method args next =
     (if c < length (connections n) \<and> method \<in> set (client (connections n ! c)) then
        (n, [ClientApply c method args next])
      else call_callback n next [JError (''Method not found: '' @ method)])"

definition remoteCall ::
  "node \<Rightarrow> jsval \<Rightarrow> string \<Rightarrow> jsval list \<Rightarrow> callback \<Rightarrow> node \<times> effect list" where
  "remoteCall n node method args next =
     (case remote n node of
        Inl e \<Rightarrow> (n, [Throw e])
      | Inr (n1, RConnection c, es) \<Rightarrow>
          if c < length (connections n1) \<and> connected (connections n1 ! c) then
            (let (n2, es2) = invoke n1 c method args next in (n2, es @ es2))
          else if c < length (connections n1) then
            (n1\<lparr>connections := (connections n1)
                  [c := (connections n1 ! c)
                     \<lparr>connect_once := connect_once (connections n1 ! c) @ [(method, args, next)]\<rparr>]\<rparr>,
             es)
          else (n1, es)
      | Inr (n1, RInherited, es) \<Rightarrow> (n1, es @ [Throw ThrownTypeError])
      | Inr (n1, r, es) \<Rightarrow>
          (case concat_string node of
             None \<Rightarrow> (n1, es @ [Throw ThrownTypeError])
           | Some name \<Rightarrow>
               (let (n2, es2) =
                      call_callback n1 next
                        [JError (''could not find remote metadata for URL '' @ name)]
                in (n2, es @ es2))))"

text \<open>
  \<^verbatim>\<open>
  Node.prototype._removePeerGossip = function (peer) {
      var idx = this._remoteIds.indexOf(peer.id);
      if (idx >= 0) { this._remoteIds.splice(idx, 1); }
      this._remotes[peer.id] = null;
      this.gossip.removePeer(peer.id);
  };
  \<close>
  It is the listener of the membership provider's \<open>left\<close> event; \<open>peer_id\<close> is
  \<open>peer.id\<close>.
\<close>

definition removePeerGossip :: "node \<Rightarrow> string \<Rightarrow> node \<times> effect list" where
  "removePeerGossip n peer_id =
     (n\<lparr>remoteIds := remove1 peer_id (remoteIds n),
        remotes := (remotes n)(peer_id \<mapsto> None)\<rparr>,
      [GossipRemovePeer peer_id])"

subsection \<open>Observations on runs\<close>

text \<open>Several callers of \<open>getsetnx\<close> for one resource, one after the other, nothing in between.\<close>

fun getsetnx_calls ::
  "node \<Rightarrow> jsval \<Rightarrow> jsval \<Rightarrow> (jsval list \<times> callback) list \<Rightarrow> node \<times> effect list" where
  "getsetnx_calls n resourceId resourceType [] = (n, [])"
| "getsetnx_calls n resourceId resourceType ((args, next) # callers) =
     (let (n1, es1) = getsetnx n resourceId resourceType args next;
          (n2, es2) = getsetnx_calls n1 resourceId resourceType callers
      in (n2, es1 @ es2))"

text \<open>The executions among the effects: calls of a handler and forwarded remote calls.\<close>

fun is_execution :: "effect \<Rightarrow> bool" where
  "is_execution (Apply name args cb) = True"
| "is_execution (SetImmediateRemoteCall node method args cb) = True"
| "is_execution (ClientApply c method args cb) = True"
| "is_execution e = False"

text \<open>The calls of a method on a peer's client (the forwarded RPCs) among the effects.\<close>

fun is_rpc :: "effect \<Rightarrow> bool" where
  "is_rpc (ClientApply c method args cb) = True"
| "is_rpc e = False"

text \<open>The writes to the store and the calls of callbacks among the effects.\<close>

fun is_write :: "effect \<Rightarrow> bool" where
  "is_write (ClusterSet key v) = True"
| "is_write e = False"

fun is_callback_call :: "effect \<Rightarrow> bool" where
  "is_callback_call (Call cb args) = True"
| "is_callback_call (SetImmediate cb args) = True"
| "is_callback_call e = False"

text \<open>
  The key under which a resource is cached and coalesced:
  \<open>[ resourceType, resourceId ].join('~')\<close> for two strings.
\<close>

definition operationKey :: "string \<Rightarrow> string \<Rightarrow> string" where
  "operationKey resourceType resourceId =
     (case js_join ''~'' [JStr resourceType, JStr resourceId] of
        Inr key \<Rightarrow> key
      | Inl e \<Rightarrow> [])"

text \<open>The array that an \<open>Apply\<close> effect hands to the handler, without the callback at its end.\<close>

fun handler_arguments :: "effect \<Rightarrow> jsval list" where
  "handler_arguments (Apply name args cb) = args"
| "handler_arguments e = []"

subsection \<open>Nodes to run the operations on\<close>

text \<open>
  The functions that \<open>this[m]\<close> finds on every node: the methods that index.js puts on
  \<open>Node.prototype\<close>, those of \<open>EventEmitter.prototype\<close>, and the functions of
  \<open>Object.prototype\<close>, \<open>constructor\<close> being \<open>Node\<close> itself. \<open>this['__proto__']\<close> is the
  prototype object and no function.
\<close>

definition node_prototype_methods :: "string list" where
  "node_prototype_methods =
     [''ok'', ''getsetnx'', ''del'', ''update'', ''join'', ''leave'', ''open'', ''close'',
      ''_remoteCall'', ''_remote'', ''peerOnline'', ''randomPeerOrSelf'', ''_waitForNode'',
      ''_onPeerJoined'', ''_onLeader'', ''_removePeerGossip'', ''_gossipLeader'',
      ''_transportListening'', ''_proxyError'', ''_onGossipClusterChange'',
      ''on'', ''once'', ''emit'', ''addListener'', ''removeListener'', ''removeAllListeners'',
      ''setMaxListeners'', ''listeners'',
      ''constructor'', ''toString'', ''toLocaleString'', ''valueOf'', ''hasOwnProperty'',
      ''isPrototypeOf'', ''propertyIsEnumerable'', ''__defineGetter__'', ''__defineSetter__'',
      ''__lookupGetter__'', ''__lookupSetter__'']"

text \<open>
  A node \<open>tcp://a:1\<close> on which the resource type \<open>counter\<close> was attached and which the
  replicated \<open>leader\<close> entry names; nothing is cached, pending or connected.
\<close>

definition leader_node :: node where
  "leader_node =
     \<lparr>node_id = ''tcp://a:1'',
      allowedRemoteCalls =
        [''getsetnx'' \<mapsto> JBool True, ''update'' \<mapsto> JBool True, ''counter'' \<mapsto> JBool True],
      methods = ''counter'' # node_prototype_methods,
      remoteCallMethods = [''getsetnx'', ''update'', ''counter''],
      cluster = [''leader'' \<mapsto> JStr ''tcp://a:1''],
      callbackQueue = Map.empty,
      remotes = Map.empty,
      remoteIds = [],
      peerMeta = Map.empty,
      connections = []\<rparr>"

text \<open>The same node with the number 1, or \<open>null\<close>, cached for resource \<open>x\<close> of type \<open>counter\<close>.\<close>

definition cached_node :: node where
  "cached_node = leader_node\<lparr>cluster := (cluster leader_node)(''counter~x'' \<mapsto> JNum ''1'')\<rparr>"

definition null_node :: node where
  "null_node = leader_node\<lparr>cluster := (cluster leader_node)(''counter~x'' \<mapsto> JNull)\<rparr>"

text \<open>The same node before any leader is known to it.\<close>

definition lonely_node :: node where
  "lonely_node = leader_node\<lparr>cluster := Map.empty\<rparr>"

text \<open>The same node when the leader is the peer \<open>tcp://b:2\<close>, whose address is known.\<close>

definition follower_node :: node where
  "follower_node =
     leader_node\<lparr>cluster := [''leader'' \<mapsto> JStr ''tcp://b:2''],
                 peerMeta := [''tcp://b:2'' \<mapsto> (''b'', 5201)]\<rparr>"

text \<open>
  The follower after a caller asked for resource \<open>x\<close> of type \<open>counter\<close> and the
  scheduled \<open>_remoteCall\<close> ran: the connection to the leader is not yet established.
\<close>

definition waiting_node :: node where
  "waiting_node =
     fst (remoteCall (fst (getsetnx follower_node (JStr ''x'') (JStr ''counter'') [] (Next 0)))
            (JStr ''tcp://b:2'') ''getsetnx'' [JStr ''x'', JStr ''counter''] (Queued ''counter~x''))"

text \<open>The same follower once that connection is established.\<close>

definition connected_node :: node where
  "connected_node =
     follower_node\<lparr>remotes := [''tcp://b:2'' \<mapsto> Some 0],
                   connections :=
                     [\<lparr>connected = True, client = [''getsetnx'', ''update'', ''counter''],
                       connect_once = []\<rparr>]\<rparr>"

text \<open>
  The leader with two more resource types attached, \<open>a\<close> and \<open>a~b\<close>
  (\<open>attachRemoteCall\<close> accepts every name that is not yet a property of the prototype),
  and the number 1 stored under the key \<open>a~b~c\<close>.
\<close>

definition tilde_node :: node where
  "tilde_node =
     leader_node\<lparr>allowedRemoteCalls :=
                   (allowedRemoteCalls leader_node)(''a'' \<mapsto> JBool True, ''a~b'' \<mapsto> JBool True),
                 cluster := (cluster leader_node)(''a~b~c'' \<mapsto> JNum ''1'')\<rparr>"

section \<open>Properties of \<open>ok\<close>\<close>

lemma ok_loop_copies:
  "i \<le> length arguments \<Longrightarrow> length arr = length arguments \<Longrightarrow> take i arr = take i arguments \<Longrightarrow>
   ok_loop arguments (length arguments) i arr = arguments"
proof (induction "length arguments - i" arbitrary: i arr)
  case 0
  then have "i = length arguments" by simp
  with 0 show ?case by (simp add: ok_loop.simps)
next
  case (Suc k)
  then have lt: "i < length arguments" by simp
  let ?arr = "arr[i := arguments ! i]"
  have "take (Suc i) ?arr = take (Suc i) arguments"
    using Suc.prems lt by (simp add: take_Suc_conv_app_nth)
  moreover have "k = length arguments - Suc i" using Suc.hyps by simp
  ultimately have "ok_loop arguments (length arguments) (Suc i) ?arr = arguments"
    using Suc.hyps(1) [of "Suc i" ?arr] lt Suc.prems by simp
  with lt show ?case by (subst ok_loop.simps) simp
qed

text \<open>The conversion that \<open>join\<close> applies agrees with the string of an argument written out above.\<close>

lemma elem_string_has_string: "has_string v \<Longrightarrow> elem_string v = Some (argument_string v)"
proof (cases v)
  case (JBool b)
  then show ?thesis by (cases b) (simp_all add: elem_string_def)
next
  case (JError m)
  then show ?thesis by (cases m) (simp_all add: elem_string_def)
next
  case (JObj r s c)
  assume "has_string v"
  with JObj show ?thesis by (cases s) (simp_all add: elem_string_def)
qed (simp_all add: elem_string_def)

lemma elem_string_throws: "\<not> has_string v \<Longrightarrow> elem_string v = None"
  by (cases v rule: has_string.cases) (simp_all add: elem_string_def)

lemma join_loop_tilde:
  "list_all has_string xs \<Longrightarrow>
   join_loop ''~'' xs (r @ s) = Inr (r @ tilde_joined (s # map argument_string xs))"
proof (induction xs arbitrary: r s)
  case Nil
  show ?case by simp
next
  case (Cons x xs)
  then have x: "elem_string x = Some (argument_string x)" and xs: "list_all has_string xs"
    by (simp_all add: elem_string_has_string)
  have "join_loop ''~'' (x # xs) (r @ s) = join_loop ''~'' xs ((r @ s @ ''~'') @ argument_string x)"
    by (simp add: x)
  also have "\<dots> = Inr ((r @ s @ ''~'') @ tilde_joined (argument_string x # map argument_string xs))"
    using xs by (rule Cons.IH)
  finally show ?case by simp
qed

lemma join_loop_throws:
  "\<not> list_all has_string xs \<Longrightarrow> join_loop sep xs r = Inl ThrownTypeError"
proof (induction xs arbitrary: r)
  case Nil
  then show ?case by simp
next
  case (Cons x xs)
  show ?case
  proof (cases "has_string x")
    case True
    with Cons.prems have "\<not> list_all has_string xs" by simp
    then show ?thesis using True by (simp add: elem_string_has_string Cons.IH)
  next
    case False
    then show ?thesis by (simp add: elem_string_throws)
  qed
qed

lemma js_join_tilde:
  assumes "list_all has_string xs"
  shows "js_join ''~'' xs = Inr (tilde_joined (map argument_string xs))"
proof (cases xs)
  case Nil
  then show ?thesis by (simp add: js_join_def)
next
  case (Cons x rest)
  with assms have x: "elem_string x = Some (argument_string x)" and rest: "list_all has_string rest"
    by (simp_all add: elem_string_has_string)
  have "join_loop ''~'' rest ([] @ argument_string x) =
          Inr ([] @ tilde_joined (argument_string x # map argument_string rest))"
    using rest by (rule join_loop_tilde)
  with Cons x show ?thesis by (simp add: js_join_def)
qed

lemma js_join_throws:
  assumes "\<not> list_all has_string xs"
  shows "js_join sep xs = Inl ThrownTypeError"
proof (cases xs)
  case Nil
  with assms show ?thesis by simp
next
  case (Cons x rest)
  show ?thesis
  proof (cases "has_string x")
    case True
    with assms Cons have "\<not> list_all has_string rest" by simp
    then show ?thesis using True Cons
      by (simp add: js_join_def elem_string_has_string join_loop_throws)
  next
    case False
    with Cons show ?thesis by (simp add: js_join_def elem_string_throws)
  qed
qed

text \<open>
  C10, as the code has it: \<open>ok\<close> throws \<open>Error('arguments must not be empty')\<close> for the
  call with no argument. For a call with at least one argument it returns the strings
  of the arguments joined with \<open>~\<close> in order (nothing for \<open>null\<close> and \<open>undefined\<close>) when
  every argument converts to a string, and throws the \<open>TypeError\<close> of the conversion
  when one does not.
\<close>

theorem ok_joins_convertible_arguments:
  "ok [] = Inl (ThrownError ''arguments must not be empty'') \<and>
   (arguments \<noteq> [] \<and> list_all has_string arguments \<longrightarrow>
      ok arguments = Inr (tilde_joined (map argument_string arguments))) \<and>
   (arguments \<noteq> [] \<and> \<not> list_all has_string arguments \<longrightarrow>
      ok arguments = Inl ThrownTypeError)"
proof -
  have "ok_loop arguments (length arguments) 0 (replicate (length arguments) JUndefined) = arguments"
    by (rule ok_loop_copies) simp_all
  then show ?thesis by (simp add: ok_def js_join_tilde js_join_throws)
qed

theorem ok_joins_convertible_arguments_witness:
  "ok [] = Inl (ThrownError ''arguments must not be empty'') \<and>
   ok [JStr ''counter'', JNull, JNum ''12'', JBool True, JUndefined, JError ''no'',
       JObj 3 (Some ''a,b'') (Some ''a,b'')] =
     Inr ''counter~~12~true~~Error: no~a,b'' \<and>
   ok [JStr ''counter'', JStr ''x''] = Inr ''counter~x'' \<and>
   ok [JStr ''x'', JObj 4 None None] = Inl ThrownTypeError"
  using ok_joins_convertible_arguments
      [of "[JStr ''counter'', JNull, JNum ''12'', JBool True, JUndefined, JError ''no'',
            JObj 3 (Some ''a,b'') (Some ''a,b'')]"]
    ok_joins_convertible_arguments [of "[JStr ''counter'', JStr ''x'']"]
    ok_joins_convertible_arguments [of "[JStr ''x'', JObj 4 None None]"]
  by simp

text \<open>
  \<open>ok\<close> does not return a key for every call with an argument: for an object without
  string conversion, such as \<open>Object.create(null)\<close>, \<open>join\<close> throws.
\<close>

theorem ok_throws_on_unconvertible_argument:
  "[JObj 4 None None] \<noteq> [] \<and> ok [JObj 4 None None] = Inl ThrownTypeError"
  by (simp add: ok_def ok_loop.simps js_join_def elem_string_def)

section \<open>Evaluation and frame lemmas\<close>

lemmas node_eval =
  getsetnx_def update_def del_def callbackQueue_add_def callbackQueue_resolve_def
  cluster_get_def allowedRemoteCalls_truthy_def object_prototype_names_def strict_eq_def
  js_join_def elem_string_def node_prototype_methods_def Let_def

lemmas remote_eval = remoteCall_def remote_def peerOnline_def invoke_def removePeerGossip_def

lemma js_join_key: "js_join ''~'' [JStr rt, JStr rid] = Inr (rt @ ''~'' @ rid)"
  by (simp add: js_join_def elem_string_def)

lemma operationKey_append: "operationKey rt rid = rt @ ''~'' @ rid"
  by (simp add: operationKey_def js_join_key)

lemma js_join_operationKey: "js_join ''~'' [JStr rt, JStr rid] = Inr (operationKey rt rid)"
  by (simp add: operationKey_append js_join_key)



lemma truthy_callbackQueue [simp]:
  "allowedRemoteCalls_truthy (n\<lparr>callbackQueue := q\<rparr>) name = allowedRemoteCalls_truthy n name"
  by (simp add: allowedRemoteCalls_truthy_def)

lemma truthy_cluster [simp]:
  "allowedRemoteCalls_truthy (n\<lparr>cluster := c\<rparr>) name = allowedRemoteCalls_truthy n name"
  by (simp add: allowedRemoteCalls_truthy_def)

lemma cluster_get_callbackQueue [simp]:
  "cluster_get (n\<lparr>callbackQueue := q\<rparr>) key = cluster_get n key"
  by (simp add: cluster_get_def)

lemma cluster_get_set [simp]:
  "cluster_get (n\<lparr>cluster := (cluster n)(key \<mapsto> v)\<rparr>) key' =
     (if key' = key then v else cluster_get n key')"
  by (simp add: cluster_get_def)

lemma strict_eq_undefined [simp]: "strict_eq v JUndefined = (v = JUndefined)"
  by (auto simp add: strict_eq_def)


lemma peerOnline_callbackQueue [simp]:
  "peerOnline (n\<lparr>callbackQueue := q\<rparr>) node = peerOnline n node"
  by (simp add: peerOnline_def split: option.split)

section \<open>The paths of \<open>getsetnx\<close> and \<open>update\<close>\<close>

text \<open>
  A valid \<open>getsetnx\<close> that finds no cached value and no pending operation creates the
  pending operation and executes: on the leader it calls the handler, or throws where
  \<open>this[resourceType]\<close> is no function; otherwise it schedules the remote call.
\<close>

lemma getsetnx_first_caller:
  assumes "rid \<noteq> []" and "resourceType_allowed n (JStr rt)"
    and "cluster_get n (operationKey rt rid) = JNull \<or> cluster_get n (operationKey rt rid) = JUndefined"
    and "callbackQueue n (operationKey rt rid) = None"
  shows "getsetnx n (JStr rid) (JStr rt) args next =
           (n\<lparr>callbackQueue := (callbackQueue n)(operationKey rt rid \<mapsto> [next])\<rparr>,
            [ClusterGet (operationKey rt rid), ClusterGet ''leader'',
             if strict_eq (cluster_get n ''leader'') (JStr (node_id n))
             then if rt \<in> set (methods n)
                  then Apply rt ([JStr (operationKey rt rid), JStr rid] @ args)
                         (Queued (operationKey rt rid))
                  else Throw ThrownTypeError
             else SetImmediateRemoteCall (cluster_get n ''leader'') ''getsetnx''
                    ([JStr rid, JStr rt] @ args) (Queued (operationKey rt rid))])"
  using assms by (auto simp add: getsetnx_def js_join_operationKey callbackQueue_add_def Let_def)

text \<open>One that finds a pending operation joins its waiters and does nothing else.\<close>

lemma getsetnx_later_caller:
  assumes "rid \<noteq> []" and "resourceType_allowed n (JStr rt)"
    and "cluster_get n (operationKey rt rid) = JNull \<or> cluster_get n (operationKey rt rid) = JUndefined"
    and "callbackQueue n (operationKey rt rid) = Some waiters"
  shows "getsetnx n (JStr rid) (JStr rt) args next =
           (n\<lparr>callbackQueue := (callbackQueue n)(operationKey rt rid \<mapsto> waiters @ [next])\<rparr>,
            [ClusterGet (operationKey rt rid)])"
  using assms by (auto simp add: getsetnx_def js_join_operationKey callbackQueue_add_def Let_def)


text \<open>Further callers of a pending operation only lengthen its list of waiters.\<close>

lemma getsetnx_calls_attach:
  assumes "rid \<noteq> []" and "resourceType_allowed n (JStr rt)"
    and "cluster_get n (operationKey rt rid) = JNull \<or> cluster_get n (operationKey rt rid) = JUndefined"
    and "callbackQueue n (operationKey rt rid) = Some waiters"
  shows "getsetnx_calls n (JStr rid) (JStr rt) callers =
           (n\<lparr>callbackQueue := (callbackQueue n)(operationKey rt rid \<mapsto> waiters @ map snd callers)\<rparr>,
            replicate (length callers) (ClusterGet (operationKey rt rid)))"
  using assms
proof (induction callers arbitrary: n waiters)
  case Nil
  then have "(callbackQueue n)(operationKey rt rid \<mapsto> waiters) = callbackQueue n"
    by (simp add: fun_upd_idem)
  then show ?case by simp
next
  case (Cons caller callers)
  obtain args nx where caller: "caller = (args, nx)" by (cases caller)
  let ?n1 = "n\<lparr>callbackQueue := (callbackQueue n)(operationKey rt rid \<mapsto> waiters @ [nx])\<rparr>"
  have step: "getsetnx n (JStr rid) (JStr rt) args nx = (?n1, [ClusterGet (operationKey rt rid)])"
    using Cons.prems by (rule getsetnx_later_caller)
  have rest: "getsetnx_calls ?n1 (JStr rid) (JStr rt) callers =
      (?n1\<lparr>callbackQueue := (callbackQueue ?n1)(operationKey rt rid \<mapsto> (waiters @ [nx]) @ map snd callers)\<rparr>,
       replicate (length callers) (ClusterGet (operationKey rt rid)))"
    using Cons.prems by (intro Cons.IH) simp_all
  have "?n1\<lparr>callbackQueue := (callbackQueue ?n1)(operationKey rt rid \<mapsto> (waiters @ [nx]) @ map snd callers)\<rparr> =
      n\<lparr>callbackQueue := (callbackQueue n)(operationKey rt rid \<mapsto> waiters @ map snd (caller # callers))\<rparr>"
    by (simp add: caller)
  with rest have "getsetnx_calls ?n1 (JStr rid) (JStr rt) callers =
      (n\<lparr>callbackQueue := (callbackQueue n)(operationKey rt rid \<mapsto> waiters @ map snd (caller # callers))\<rparr>,
       replicate (length callers) (ClusterGet (operationKey rt rid)))"
    by (simp only:)
  with step show ?case
    by (simp only: caller getsetnx_calls.simps Let_def split_conv length_Cons replicate_Suc append_Cons append_Nil)
qed

section \<open>Remote calls\<close>

text \<open>
  A scheduled \<open>_remoteCall\<close> ends in one of these ways. Without a connection and without
  metadata of the peer it calls \<open>next\<close> with an error. On an established connection it
  calls the peer's method once, or calls \<open>next\<close> with an error when the client has no
  such method. On a connection not yet established, also one it has just opened, it
  queues the call for the \<open>connect\<close> event. It throws where the peer id has no string or
  names an inherited property of \<open>_remotes\<close>. In no case does it call the peer more
  than once.
\<close>

lemma remoteCall_without_metadata:
  assumes "peerOnline n node = Inr RUndefined \<or> peerOnline n node = Inr RNull"
    and "to_string node = Some key" and "peerMeta n key = None"
    and "concat_string node = Some name"
  shows "remoteCall n node method args next =
           call_callback n next [JError (''could not find remote metadata for URL '' @ name)]"
  using assms by (auto simp add: remoteCall_def remote_def)

lemma remoteCall_connected:
  assumes "peerOnline n node = Inr (RConnection c)" and "c < length (connections n)"
    and "connected (connections n ! c)" and "method \<in> set (client (connections n ! c))"
  shows "remoteCall n node method args next = (n, [ClientApply c method args next])"
  using assms by (simp add: remoteCall_def remote_def invoke_def)

lemma remoteCall_connecting:
  assumes "peerOnline n node = Inr (RConnection c)" and "c < length (connections n)"
    and "\<not> connected (connections n ! c)"
  shows "remoteCall n node method args next =
           (n\<lparr>connections := (connections n)
                [c := (connections n ! c)
                   \<lparr>connect_once := connect_once (connections n ! c) @ [(method, args, next)]\<rparr>]\<rparr>,
            [])"
  using assms by (simp add: remoteCall_def remote_def)

lemma remoteCall_opens_connection:
  assumes "peerOnline n node = Inr RUndefined \<or> peerOnline n node = Inr RNull"
    and "to_string node = Some key" and "peerMeta n key = Some (hostname, port)"
  shows "remoteCall n node method args next =
           (n\<lparr>remotes := (remotes n)(key \<mapsto> Some (length (connections n))),
              connections := connections n @
                [\<lparr>connected = False, client = remoteCallMethods n,
                  connect_once = [(method, args, next)]\<rparr>]\<rparr>,
            [Connect hostname port])"
  using assms by (auto simp add: remoteCall_def remote_def Let_def nth_append)

lemma remoteCall_inherited:
  assumes "peerOnline n node = Inr RInherited"
  shows "remoteCall n node method args next = (n, [Throw ThrownTypeError])"
  using assms by (simp add: remoteCall_def remote_def)

lemma call_callback_no_rpc: "filter is_rpc (snd (call_callback n cb args)) = []"
  by (cases cb) (simp_all add: callbackQueue_resolve_def filter_empty_conv split: option.split)

lemma invoke_at_most_one_rpc:
  "filter is_rpc (snd (invoke n c method args next)) = [] \<or>
   filter is_rpc (snd (invoke n c method args next)) = [ClientApply c method args next]"
  by (simp add: invoke_def call_callback_no_rpc)

lemma remote_no_rpc: "remote n node = Inr (n1, r, es) \<Longrightarrow> filter is_rpc es = []"
  by (auto simp add: remote_def Let_def split: sum.splits remote_value.splits option.splits)

lemma remoteCall_at_most_one_rpc:
  "filter is_rpc (snd (remoteCall n node method args next)) = [] \<or>
   (\<exists>c. filter is_rpc (snd (remoteCall n node method args next)) =
          [ClientApply c method args next])"
proof (cases "remote n node")
  case (Inl e)
  then show ?thesis by (simp add: remoteCall_def)
next
  case (Inr result)
  obtain n1 r es where result: "result = (n1, r, es)" by (cases result) auto
  have es: "filter is_rpc es = []"
    using Inr result by (auto dest: remote_no_rpc)
  show ?thesis
  proof (cases r)
    case (RConnection c)
    then show ?thesis
      using es Inr result invoke_at_most_one_rpc [of n1 c "method" args "next"]
      by (auto simp add: remoteCall_def split_beta)
  next
    case RInherited
    then show ?thesis using es Inr result by (simp add: remoteCall_def)
  next
    case RUndefined
    then show ?thesis
      using es Inr result call_callback_no_rpc
      by (simp add: remoteCall_def split_beta split: option.split)
  next
    case RNull
    then show ?thesis
      using es Inr result call_callback_no_rpc
      by (simp add: remoteCall_def split_beta split: option.split)
  qed
qed

section \<open>Coalescing\<close>

text \<open>
  C1, as the code has it: for a resource with no cached value and no pending operation,
  any number of callers of \<open>getsetnx\<close> (valid arguments, one after the other, nothing
  resolved or cached in between; on the leader \<open>this[resourceType]\<close> is a function)
  trigger exactly one execution: on the leader one call of the handler, with the first
  caller's arguments, and otherwise one scheduled \<open>_remoteCall\<close> of \<open>getsetnx\<close> to the
  node of the \<open>leader\<close> entry. The callbacks of all callers wait on the one pending
  operation in the order of their calls, and the one call of its callback, which both
  executions are given as their completion, removes it and hands the same result to
  every one of them. \<open>getsetnx\<close> itself sends no RPC, and the scheduled \<open>_remoteCall\<close>
  sends at most one: exactly one call of \<open>getsetnx\<close> on the leader's client when the
  connection is established and the client has the method; none when the leader has
  neither connection nor metadata, where every caller is called back with the same error;
  and none yet on a connection not established, or one that it has to open first, where
  the call is queued once for the \<open>connect\<close> event.
\<close>

theorem getsetnx_coalesces:
  fixes n :: node and rid rt :: string and callers :: "(jsval list \<times> callback) list"
  assumes "rid \<noteq> []" and "resourceType_allowed n (JStr rt)"
    and "cluster_get n (operationKey rt rid) = JNull \<or> cluster_get n (operationKey rt rid) = JUndefined"
    and "callbackQueue n (operationKey rt rid) = None"
    and "callers \<noteq> []"
    and "strict_eq (cluster_get n ''leader'') (JStr (node_id n)) \<longrightarrow> rt \<in> set (methods n)"
  defines "key \<equiv> operationKey rt rid"
    and "leader \<equiv> cluster_get n ''leader''"
    and "forwarded \<equiv> [JStr rid, JStr rt] @ fst (hd callers)"
    and "n' \<equiv> fst (getsetnx_calls n (JStr rid) (JStr rt) callers)"
    and "es \<equiv> snd (getsetnx_calls n (JStr rid) (JStr rt) callers)"
  shows "filter is_execution es =
           [if strict_eq leader (JStr (node_id n))
            then Apply rt ([JStr key, JStr rid] @ fst (hd callers)) (Queued key)
            else SetImmediateRemoteCall leader ''getsetnx'' forwarded (Queued key)] \<and>
         filter is_rpc es = [] \<and>
         callbackQueue n' key = Some (map snd callers) \<and>
         call_callback n' (Queued key) result =
           (n\<lparr>callbackQueue := (callbackQueue n)(key := None)\<rparr>,
            map (\<lambda>caller. Call (snd caller) result) callers) \<and>
         (filter is_rpc (snd (remoteCall n' leader ''getsetnx'' forwarded (Queued key))) = [] \<or>
          (\<exists>c. filter is_rpc (snd (remoteCall n' leader ''getsetnx'' forwarded (Queued key))) =
                 [ClientApply c ''getsetnx'' forwarded (Queued key)])) \<and>
         (peerOnline n leader = Inr (RConnection c) \<and> c < length (connections n) \<and>
          connected (connections n ! c) \<and> ''getsetnx'' \<in> set (client (connections n ! c)) \<longrightarrow>
            remoteCall n' leader ''getsetnx'' forwarded (Queued key) =
              (n', [ClientApply c ''getsetnx'' forwarded (Queued key)])) \<and>
         ((peerOnline n leader = Inr RUndefined \<or> peerOnline n leader = Inr RNull) \<and>
          to_string leader = Some peer \<and> peerMeta n peer = None \<and> concat_string leader = Some name \<longrightarrow>
            remoteCall n' leader ''getsetnx'' forwarded (Queued key) =
              (n\<lparr>callbackQueue := (callbackQueue n)(key := None)\<rparr>,
               map (\<lambda>caller. Call (snd caller)
                      [JError (''could not find remote metadata for URL '' @ name)]) callers)) \<and>
         (peerOnline n leader = Inr (RConnection c) \<and> c < length (connections n) \<and>
          \<not> connected (connections n ! c) \<longrightarrow>
            remoteCall n' leader ''getsetnx'' forwarded (Queued key) =
              (n'\<lparr>connections := (connections n)
                   [c := (connections n ! c)
                      \<lparr>connect_once := connect_once (connections n ! c) @
                         [(''getsetnx'', forwarded, Queued key)]\<rparr>]\<rparr>,
               [])) \<and>
         ((peerOnline n leader = Inr RUndefined \<or> peerOnline n leader = Inr RNull) \<and>
          to_string leader = Some peer \<and> peerMeta n peer = Some (hostname, port) \<longrightarrow>
            remoteCall n' leader ''getsetnx'' forwarded (Queued key) =
              (n'\<lparr>remotes := (remotes n)(peer \<mapsto> Some (length (connections n))),
                  connections := connections n @
                    [\<lparr>connected = False, client = remoteCallMethods n,
                      connect_once = [(''getsetnx'', forwarded, Queued key)]\<rparr>]\<rparr>,
               [Connect hostname port]))"
proof -
  obtain args nx rest where callers: "callers = (args, nx) # rest"
    using assms(5) by (cases callers) auto
  let ?n1 = "n\<lparr>callbackQueue := (callbackQueue n)(key \<mapsto> [nx])\<rparr>"
  let ?exec = "if strict_eq leader (JStr (node_id n))
            then Apply rt ([JStr key, JStr rid] @ args) (Queued key)
            else SetImmediateRemoteCall leader ''getsetnx'' ([JStr rid, JStr rt] @ args) (Queued key)"
  have first: "getsetnx n (JStr rid) (JStr rt) args nx =
      (?n1, [ClusterGet key, ClusterGet ''leader'', ?exec])"
    using getsetnx_first_caller [OF assms(1-4), of args nx] assms(6)
    by (auto simp add: key_def leader_def)
  have later: "getsetnx_calls ?n1 (JStr rid) (JStr rt) rest =
      (?n1\<lparr>callbackQueue := (callbackQueue ?n1)(key \<mapsto> [nx] @ map snd rest)\<rparr>,
       replicate (length rest) (ClusterGet key))"
    unfolding key_def using assms(1-3) by (intro getsetnx_calls_attach) simp_all
  have "?n1\<lparr>callbackQueue := (callbackQueue ?n1)(key \<mapsto> [nx] @ map snd rest)\<rparr> =
      n\<lparr>callbackQueue := (callbackQueue n)(key \<mapsto> map snd callers)\<rparr>"
    by (simp add: callers)
  with later have later': "getsetnx_calls ?n1 (JStr rid) (JStr rt) rest =
      (n\<lparr>callbackQueue := (callbackQueue n)(key \<mapsto> map snd callers)\<rparr>,
       replicate (length rest) (ClusterGet key))"
    by (simp only:)
  have run: "getsetnx_calls n (JStr rid) (JStr rt) callers =
      (n\<lparr>callbackQueue := (callbackQueue n)(key \<mapsto> map snd callers)\<rparr>,
       [ClusterGet key, ClusterGet ''leader'', ?exec] @ replicate (length rest) (ClusterGet key))"
    using first later'
    by (simp only: callers getsetnx_calls.simps Let_def split_conv)
  have n': "n' = n\<lparr>callbackQueue := (callbackQueue n)(key \<mapsto> map snd callers)\<rparr>"
    by (simp add: n'_def run)
  have es: "es = [ClusterGet key, ClusterGet ''leader'', ?exec] @ replicate (length rest) (ClusterGet key)"
    by (simp add: es_def run)
  have forwarded: "forwarded = [JStr rid, JStr rt] @ args"
    by (simp add: forwarded_def callers)
  have hd_args: "fst (hd callers) = args"
    by (simp add: callers)
  have one: "filter is_execution es =
      [if strict_eq leader (JStr (node_id n))
       then Apply rt ([JStr key, JStr rid] @ fst (hd callers)) (Queued key)
       else SetImmediateRemoteCall leader ''getsetnx'' forwarded (Queued key)]"
    by (simp add: es forwarded hd_args)
  have no_rpc: "filter is_rpc es = []"
    by (simp add: es)
  have attached: "callbackQueue n' key = Some (map snd callers)"
    by (simp add: n')
  have fanout: "call_callback n' (Queued key) r =
      (n\<lparr>callbackQueue := (callbackQueue n)(key := None)\<rparr>,
       map (\<lambda>caller. Call (snd caller) r) callers)" for r
    by (simp add: n' callbackQueue_resolve_def)
  have at_most: "filter is_rpc (snd (remoteCall n' leader ''getsetnx'' forwarded (Queued key))) = [] \<or>
      (\<exists>c. filter is_rpc (snd (remoteCall n' leader ''getsetnx'' forwarded (Queued key))) =
             [ClientApply c ''getsetnx'' forwarded (Queued key)])"
    by (rule remoteCall_at_most_one_rpc)
  have established: "remoteCall n' leader ''getsetnx'' forwarded (Queued key) =
      (n', [ClientApply c ''getsetnx'' forwarded (Queued key)])"
    if "peerOnline n leader = Inr (RConnection c) \<and> c < length (connections n) \<and>
        connected (connections n ! c) \<and> ''getsetnx'' \<in> set (client (connections n ! c))"
    using that by (intro remoteCall_connected) (simp_all add: n')
  have unresolved: "remoteCall n' leader ''getsetnx'' forwarded (Queued key) =
      (n\<lparr>callbackQueue := (callbackQueue n)(key := None)\<rparr>,
       map (\<lambda>caller. Call (snd caller)
              [JError (''could not find remote metadata for URL '' @ name)]) callers)"
    if h: "(peerOnline n leader = Inr RUndefined \<or> peerOnline n leader = Inr RNull) \<and>
        to_string leader = Some peer \<and> peerMeta n peer = None \<and> concat_string leader = Some name"
  proof -
    have "remoteCall n' leader ''getsetnx'' forwarded (Queued key) =
        call_callback n' (Queued key) [JError (''could not find remote metadata for URL '' @ name)]"
      using h by (intro remoteCall_without_metadata [where key = peer]) (simp_all add: n')
    then show ?thesis by (simp only: fanout)
  qed
  have connecting: "remoteCall n' leader ''getsetnx'' forwarded (Queued key) =
      (n'\<lparr>connections := (connections n)
           [c := (connections n ! c)
              \<lparr>connect_once := connect_once (connections n ! c) @
                 [(''getsetnx'', forwarded, Queued key)]\<rparr>]\<rparr>,
       [])"
    if h: "peerOnline n leader = Inr (RConnection c) \<and> c < length (connections n) \<and>
        \<not> connected (connections n ! c)"
  proof -
    have "remoteCall n' leader ''getsetnx'' forwarded (Queued key) =
        (n'\<lparr>connections := (connections n')
           [c := (connections n' ! c)
              \<lparr>connect_once := connect_once (connections n' ! c) @
                 [(''getsetnx'', forwarded, Queued key)]\<rparr>]\<rparr>,
         [])"
      using h by (intro remoteCall_connecting) (simp_all add: n')
    moreover have "connections n' = connections n" by (simp add: n')
    ultimately show ?thesis by simp
  qed
  have opened: "remoteCall n' leader ''getsetnx'' forwarded (Queued key) =
      (n'\<lparr>remotes := (remotes n)(peer \<mapsto> Some (length (connections n))),
          connections := connections n @
            [\<lparr>connected = False, client = remoteCallMethods n,
              connect_once = [(''getsetnx'', forwarded, Queued key)]\<rparr>]\<rparr>,
       [Connect hostname port])"
    if h: "(peerOnline n leader = Inr RUndefined \<or> peerOnline n leader = Inr RNull) \<and>
        to_string leader = Some peer \<and> peerMeta n peer = Some (hostname, port)"
  proof -
    have "remoteCall n' leader ''getsetnx'' forwarded (Queued key) =
        (n'\<lparr>remotes := (remotes n')(peer \<mapsto> Some (length (connections n'))),
            connections := connections n' @
              [\<lparr>connected = False, client = remoteCallMethods n',
                connect_once = [(''getsetnx'', forwarded, Queued key)]\<rparr>]\<rparr>,
         [Connect hostname port])"
      using h by (intro remoteCall_opens_connection) (simp_all add: n')
    moreover have "connections n' = connections n" and "remotes n' = remotes n"
      and "remoteCallMethods n' = remoteCallMethods n"
      by (simp_all add: n')
    ultimately show ?thesis by simp
  qed
  from one no_rpc attached fanout [of result] at_most established unresolved connecting opened
  show ?thesis by blast
qed

text \<open>
  Three callers on the leader, and on a follower whose connection to the leader is
  established: one handler call, one RPC, and the result \<open>1\<close> reaches all three.
\<close>

theorem getsetnx_coalesces_witness:
  "''x'' \<noteq> [] \<and> resourceType_allowed leader_node (JStr ''counter'') \<and>
   cluster_get leader_node ''counter~x'' = JUndefined \<and>
   callbackQueue leader_node ''counter~x'' = None \<and>
   ''counter'' \<in> set (methods leader_node) \<and>
   filter is_execution
     (snd (getsetnx_calls leader_node (JStr ''x'') (JStr ''counter'')
             [([JNum ''7''], Next 0), ([JNum ''8''], Next 1), ([], Next 2)])) =
     [Apply ''counter'' [JStr ''counter~x'', JStr ''x'', JNum ''7''] (Queued ''counter~x'')] \<and>
   snd (call_callback
          (fst (getsetnx_calls leader_node (JStr ''x'') (JStr ''counter'')
                  [([JNum ''7''], Next 0), ([JNum ''8''], Next 1), ([], Next 2)]))
          (Queued ''counter~x'') [JNull, JNum ''1'']) =
     [Call (Next 0) [JNull, JNum ''1''], Call (Next 1) [JNull, JNum ''1''],
      Call (Next 2) [JNull, JNum ''1'']] \<and>
   resourceType_allowed connected_node (JStr ''counter'') \<and>
   cluster_get connected_node ''counter~x'' = JUndefined \<and>
   callbackQueue connected_node ''counter~x'' = None \<and>
   \<not> strict_eq (cluster_get connected_node ''leader'') (JStr (node_id connected_node)) \<and>
   peerOnline connected_node (JStr ''tcp://b:2'') = Inr (RConnection 0) \<and>
   connected (connections connected_node ! 0) \<and>
   filter is_execution
     (snd (getsetnx_calls connected_node (JStr ''x'') (JStr ''counter'')
             [([JNum ''7''], Next 0), ([JNum ''8''], Next 1), ([], Next 2)])) =
     [SetImmediateRemoteCall (JStr ''tcp://b:2'') ''getsetnx''
        [JStr ''x'', JStr ''counter'', JNum ''7''] (Queued ''counter~x'')] \<and>
   snd (remoteCall
          (fst (getsetnx_calls connected_node (JStr ''x'') (JStr ''counter'')
                  [([JNum ''7''], Next 0), ([JNum ''8''], Next 1), ([], Next 2)]))
          (JStr ''tcp://b:2'') ''getsetnx'' [JStr ''x'', JStr ''counter'', JNum ''7'']
          (Queued ''counter~x'')) =
     [ClientApply 0 ''getsetnx'' [JStr ''x'', JStr ''counter'', JNum ''7''] (Queued ''counter~x'')]"
  using getsetnx_coalesces [where n = leader_node and rid = "''x''" and rt = "''counter''"
      and callers = "[([JNum ''7''], Next 0), ([JNum ''8''], Next 1), ([], Next 2)]"
      and result = "[JNull, JNum ''1'']" and c = 0 and peer = "''tcp://b:2''" and name = "''tcp://b:2''"
      and hostname = "''b''" and port = 5201]
    getsetnx_coalesces [where n = connected_node and rid = "''x''" and rt = "''counter''"
      and callers = "[([JNum ''7''], Next 0), ([JNum ''8''], Next 1), ([], Next 2)]"
      and result = "[JNull, JNum ''1'']" and c = 0 and peer = "''tcp://b:2''" and name = "''tcp://b:2''"
      and hostname = "''b''" and port = 5201]
  by (simp add: operationKey_append connected_node_def follower_node_def leader_node_def
      cluster_get_def strict_eq_def allowedRemoteCalls_truthy_def peerOnline_def
      node_prototype_methods_def)

text \<open>
  A follower does not always forward one RPC: on a node that knows no leader yet, two
  callers lead to one scheduled \<open>_remoteCall\<close>, which sends nothing and calls both back
  with the error that the metadata of the leader is missing.
\<close>

theorem no_rpc_without_leader_metadata:
  "\<not> strict_eq (cluster_get lonely_node ''leader'') (JStr (node_id lonely_node)) \<and>
   snd (getsetnx_calls lonely_node (JStr ''x'') (JStr ''counter'') [([], Next 0), ([], Next 1)]) =
     [ClusterGet ''counter~x'', ClusterGet ''leader'',
      SetImmediateRemoteCall JUndefined ''getsetnx'' [JStr ''x'', JStr ''counter'']
        (Queued ''counter~x''),
      ClusterGet ''counter~x''] \<and>
   snd (remoteCall
          (fst (getsetnx_calls lonely_node (JStr ''x'') (JStr ''counter'')
                  [([], Next 0), ([], Next 1)]))
          JUndefined ''getsetnx'' [JStr ''x'', JStr ''counter''] (Queued ''counter~x'')) =
     [Call (Next 0) [JError ''could not find remote metadata for URL undefined''],
      Call (Next 1) [JError ''could not find remote metadata for URL undefined'']]"
  by (simp add: lonely_node_def leader_node_def node_eval remote_eval)

section \<open>Execution on the leader\<close>

text \<open>
  On the leader, a valid \<open>getsetnx\<close> for a resource type with a handler, finding no cached
  value and no pending operation, calls \<open>this[resourceType]\<close> with the operation key,
  then the resource id, then the elements of \<open>args\<close>, then the queue's callback.
\<close>

lemma getsetnx_leader_applies_handler:
  assumes "rid \<noteq> []" and "resourceType_allowed n (JStr rt)"
    and "cluster_get n (operationKey rt rid) = JNull \<or> cluster_get n (operationKey rt rid) = JUndefined"
    and "callbackQueue n (operationKey rt rid) = None"
    and "strict_eq (cluster_get n ''leader'') (JStr (node_id n))"
    and "rt \<in> set (methods n)"
  shows "getsetnx n (JStr rid) (JStr rt) args next =
           (n\<lparr>callbackQueue := (callbackQueue n)(operationKey rt rid \<mapsto> [next])\<rparr>,
            [ClusterGet (operationKey rt rid), ClusterGet ''leader'',
             Apply rt ([JStr (operationKey rt rid), JStr rid] @ args) (Queued (operationKey rt rid))])"
  using assms by (simp add: getsetnx_first_caller)

text \<open>
  C2 fails on the code: for \<open>getsetnx('x', 'counter', [7], next)\<close> on the leader, with no
  cached value and no pending operation, the handler \<open>counter\<close> is called with
  \<open>'counter~x', 'x', 7\<close> and the queue's callback. Its first argument is the operation
  key and not the resource id, and the resource id stands where the README's handler
  signature \<open>(resourceId, resourceType, arg1, arg2, ..., next)\<close> has the resource type.
  The other half of the claim holds here: the one caller waits on the pending operation
  and the handler's result, passed to that callback, is delivered to it.
\<close>

theorem handler_first_argument_is_key:
  "getsetnx leader_node (JStr ''x'') (JStr ''counter'') [JNum ''7''] (Next 0) =
     (leader_node\<lparr>callbackQueue := [''counter~x'' \<mapsto> [Next 0]]\<rparr>,
      [ClusterGet ''counter~x'', ClusterGet ''leader'',
       Apply ''counter'' [JStr ''counter~x'', JStr ''x'', JNum ''7''] (Queued ''counter~x'')]) \<and>
   handler_arguments (last (snd (getsetnx leader_node (JStr ''x'') (JStr ''counter'') [JNum ''7''] (Next 0)))) \<noteq>
     [JStr ''x'', JNum ''7''] \<and>
   hd (handler_arguments (last (snd (getsetnx leader_node (JStr ''x'') (JStr ''counter'') [JNum ''7''] (Next 0))))) \<noteq>
     JStr ''x'' \<and>
   snd (call_callback (fst (getsetnx leader_node (JStr ''x'') (JStr ''counter'') [JNum ''7''] (Next 0)))
          (Queued ''counter~x'') [JNull, JNum ''1'']) =
     [Call (Next 0) [JNull, JNum ''1'']]"
  by (simp add: leader_node_def node_eval)

text \<open>The arguments that the handler receives, read off that run.\<close>

theorem handler_first_argument_is_key_witness:
  "handler_arguments (last (snd (getsetnx leader_node (JStr ''x'') (JStr ''counter'') [JNum ''7''] (Next 0)))) =
     [JStr ''counter~x'', JStr ''x'', JNum ''7'']"
  using handler_first_argument_is_key by simp

section \<open>Validation\<close>

text \<open>
  A call that fails one of the first two checks calls back with an error and does nothing
  else: the state is unchanged and the scheduled callback is the only effect. (Where the
  resource type fails the second check and has no string for the error message, the call
  throws instead.)
\<close>

lemma rejected_calls_have_no_effect:
  assumes "\<not> is_string resourceId \<or> \<not> truthy resourceId \<or>
           \<not> resourceType_allowed n resourceType \<and> concat_string resourceType \<noteq> None"
  shows "\<exists>m. getsetnx n resourceId resourceType args next = (n, [SetImmediate next [JError m]]) \<and>
             update n resourceId resourceType v next = (n, [SetImmediate next [JError m]]) \<and>
             del n resourceId resourceType next = (n, [SetImmediate next [JError m]])"
  using assms by (auto simp add: getsetnx_def update_def del_def)

lemma rejected_call_throws:
  assumes "is_string resourceId" and "truthy resourceId"
    and "\<not> resourceType_allowed n resourceType" and "concat_string resourceType = None"
  shows "getsetnx n resourceId resourceType args next = (n, [Throw ThrownTypeError]) \<and>
         update n resourceId resourceType v next = (n, [Throw ThrownTypeError])"
  using assms by (simp add: getsetnx_def update_def)

text \<open>
  The second check fails for a name that is neither an own property of
  \<open>_allowedRemoteCalls\<close> nor a property of \<open>Object.prototype\<close>, and passes for the
  properties of \<open>Object.prototype\<close> that were never registered.
\<close>

lemma unlisted_resourceType_not_allowed:
  assumes "allowedRemoteCalls n rt = None" and "rt \<notin> set object_prototype_names"
  shows "\<not> resourceType_allowed n (JStr rt)"
  using assms by (simp add: allowedRemoteCalls_truthy_def)

lemma inherited_resourceType_allowed:
  assumes "allowedRemoteCalls n rt = None" and "rt \<in> set object_prototype_names"
  shows "resourceType_allowed n (JStr rt)"
  using assms by (simp add: allowedRemoteCalls_truthy_def)

text \<open>
  C3 fails on the code at the resource type \<open>constructor\<close>, which no node registers:
  \<open>this._allowedRemoteCalls['constructor']\<close> is the inherited \<open>Object\<close> function, so the
  check passes. \<open>update('x', 'constructor', 1, next)\<close> on the leader reads and writes the
  store under \<open>constructor~x\<close>, and \<open>getsetnx('x', 'constructor', [], next)\<close> on a follower
  reads the store, creates a pending operation and forwards the call to the leader.
\<close>

theorem unregistered_resourceType_passes:
  "allowedRemoteCalls leader_node ''constructor'' = None \<and>
   update leader_node (JStr ''x'') (JStr ''constructor'') (JNum ''1'') (Next 0) =
     (leader_node\<lparr>cluster := (cluster leader_node)(''constructor~x'' \<mapsto> JNum ''1'')\<rparr>,
      [ClusterGet ''constructor~x'', ClusterGet ''leader'', ClusterSet ''constructor~x'' (JNum ''1''),
       SetImmediate (Next 0) []]) \<and>
   getsetnx follower_node (JStr ''x'') (JStr ''constructor'') [] (Next 0) =
     (follower_node\<lparr>callbackQueue := [''constructor~x'' \<mapsto> [Next 0]]\<rparr>,
      [ClusterGet ''constructor~x'', ClusterGet ''leader'',
       SetImmediateRemoteCall (JStr ''tcp://b:2'') ''getsetnx''
         [JStr ''x'', JStr ''constructor''] (Queued ''constructor~x'')])"
  by (simp add: follower_node_def leader_node_def node_eval)

text \<open>So an unregistered type leads to a write of the store and to a forwarded call.\<close>

theorem unregistered_resourceType_passes_witness:
  "filter is_write (snd (update leader_node (JStr ''x'') (JStr ''constructor'') (JNum ''1'') (Next 0))) =
     [ClusterSet ''constructor~x'' (JNum ''1'')] \<and>
   filter is_execution (snd (getsetnx follower_node (JStr ''x'') (JStr ''constructor'') [] (Next 0))) =
     [SetImmediateRemoteCall (JStr ''tcp://b:2'') ''getsetnx''
        [JStr ''x'', JStr ''constructor''] (Queued ''constructor~x'')] \<and>
   callbackQueue (fst (getsetnx follower_node (JStr ''x'') (JStr ''constructor'') [] (Next 0)))
     ''constructor~x'' = Some [Next 0]"
  using unregistered_resourceType_passes by simp

section \<open>The cache\<close>

text \<open>
  C4: when the store holds a value other than \<open>null\<close> and \<open>undefined\<close> under the key of a
  resource, a valid \<open>getsetnx\<close> for that resource reads the store once and schedules its
  callback with \<open>(null, value)\<close>, and that is all: no handler is called, no remote call is
  scheduled, and the node's state, pending operations included, is what it was.
\<close>

theorem getsetnx_cache_fast_path:
  assumes "rid \<noteq> []" and "resourceType_allowed n (JStr rt)"
    and "cluster n (operationKey rt rid) = Some v" and "v \<noteq> JNull" and "v \<noteq> JUndefined"
  shows "getsetnx n (JStr rid) (JStr rt) args next =
           (n, [ClusterGet (operationKey rt rid), SetImmediate next [JNull, v]])"
  using assms by (simp add: getsetnx_def js_join_operationKey cluster_get_def)

theorem getsetnx_cache_fast_path_witness:
  "''x'' \<noteq> [] \<and> resourceType_allowed cached_node (JStr ''counter'') \<and>
   cluster cached_node ''counter~x'' = Some (JNum ''1'') \<and>
   getsetnx cached_node (JStr ''x'') (JStr ''counter'') [] (Next 0) =
     (cached_node, [ClusterGet ''counter~x'', SetImmediate (Next 0) [JNull, JNum ''1'']])"
  using getsetnx_cache_fast_path [of "''x''" cached_node "''counter''" "JNum ''1''" "[]" "Next 0"]
  by (simp add: operationKey_append cached_node_def leader_node_def allowedRemoteCalls_truthy_def)



section \<open>\<open>update\<close> and \<open>del\<close>\<close>




text \<open>
  C6, as the code has it: \<open>del\<close> is \<open>update\<close> with the value \<open>null\<close>. The value that
  \<open>update\<close> refuses is another one, \<open>undefined\<close>: with valid resource id and type,
  \<open>update\<close> with \<open>undefined\<close> calls back with the error "value cant be set to undefined"
  and does nothing else, and \<open>del\<close> schedules no callback with an error.
\<close>

theorem del_is_update_null:
  "del n resourceId resourceType next = update n resourceId resourceType JNull next \<and>
   (rid \<noteq> [] \<and> resourceType_allowed n (JStr rt) \<longrightarrow>
      update n (JStr rid) (JStr rt) JUndefined next =
        (n, [SetImmediate next [JError ''value cant be set to undefined'']]) \<and>
      (\<forall>cb m. SetImmediate cb [JError m] \<notin> set (snd (del n (JStr rid) (JStr rt) next))))"
  by (simp add: del_def) (simp add: update_def Let_def js_join_operationKey)

theorem del_is_update_null_witness:
  "''x'' \<noteq> [] \<and> resourceType_allowed leader_node (JStr ''counter'') \<and>
   update leader_node (JStr ''x'') (JStr ''counter'') JUndefined (Next 0) =
     (leader_node, [SetImmediate (Next 0) [JError ''value cant be set to undefined'']]) \<and>
   snd (del leader_node (JStr ''x'') (JStr ''counter'') (Next 0)) =
     [ClusterGet ''counter~x'', ClusterGet ''leader'', ClusterSet ''counter~x'' JNull,
      SetImmediate (Next 0) []]"
  using del_is_update_null [of leader_node "JStr ''x''" "JStr ''counter''" "Next 0" "''x''" "''counter''"]
  by (simp add: leader_node_def node_eval)

text \<open>
  \<open>update\<close> does not fail on the value that \<open>del\<close> passes: \<open>update('x', 'counter', null, next)\<close>
  on the leader stores \<open>null\<close> and acknowledges, as \<open>del('x', 'counter', next)\<close> does.
\<close>

theorem update_null_is_accepted:
  "snd (update leader_node (JStr ''x'') (JStr ''counter'') JNull (Next 0)) =
     [ClusterGet ''counter~x'', ClusterGet ''leader'', ClusterSet ''counter~x'' JNull,
      SetImmediate (Next 0) []] \<and>
   del leader_node (JStr ''x'') (JStr ''counter'') (Next 0) =
     update leader_node (JStr ''x'') (JStr ''counter'') JNull (Next 0)"
  by (simp add: leader_node_def node_eval)

section \<open>Peer departure\<close>

text \<open>
  C7, as the code has it: on the \<open>left\<close> event of a peer the node removes the peer's id
  from \<open>_remoteIds\<close>, sets its entry of \<open>_remotes\<close> to \<open>null\<close> and removes it from the
  gossip peers. It calls no callback and touches neither the connection objects, with the
  calls that wait for their \<open>connect\<close> event, nor the pending operations.
\<close>

theorem removePeerGossip_fails_no_waiter:
  "snd (removePeerGossip n peer_id) = [GossipRemovePeer peer_id] \<and>
   peerOnline (fst (removePeerGossip n peer_id)) (JStr peer_id) = Inr RNull \<and>
   remoteIds (fst (removePeerGossip n peer_id)) = remove1 peer_id (remoteIds n) \<and>
   connections (fst (removePeerGossip n peer_id)) = connections n \<and>
   callbackQueue (fst (removePeerGossip n peer_id)) = callbackQueue n"
  by (simp add: removePeerGossip_def peerOnline_def)

text \<open>
  A caller that waits for the connection to a peer is not failed when the peer leaves: on
  \<open>waiting_node\<close> the forwarded \<open>getsetnx\<close> is queued on the \<open>connect\<close> event of connection 0,
  and after the \<open>left\<close> event of \<open>tcp://b:2\<close> no callback was called, the call is still
  queued on that connection and the caller still waits on the pending operation.
\<close>

theorem left_leaves_caller_waiting:
  "peerOnline waiting_node (JStr ''tcp://b:2'') = Inr (RConnection 0) \<and>
   connected (connections waiting_node ! 0) = False \<and>
   connect_once (connections waiting_node ! 0) =
     [(''getsetnx'', [JStr ''x'', JStr ''counter''], Queued ''counter~x'')] \<and>
   callbackQueue waiting_node ''counter~x'' = Some [Next 0] \<and>
   filter is_callback_call (snd (removePeerGossip waiting_node ''tcp://b:2'')) = [] \<and>
   connect_once (connections (fst (removePeerGossip waiting_node ''tcp://b:2'')) ! 0) =
     [(''getsetnx'', [JStr ''x'', JStr ''counter''], Queued ''counter~x'')] \<and>
   callbackQueue (fst (removePeerGossip waiting_node ''tcp://b:2'')) ''counter~x'' = Some [Next 0]"
  by (simp add: waiting_node_def follower_node_def leader_node_def node_eval remote_eval)

section \<open>The operation key\<close>

lemma takeWhile_before:
  "c \<notin> set a \<Longrightarrow> takeWhile (\<lambda>d. d \<noteq> c) (a @ c # x) = a"
  by (induction a) auto

lemma prefix_before_tilde:
  assumes "CHR ''~'' \<notin> set a" and "CHR ''~'' \<notin> set b" and "a @ ''~'' @ x = b @ ''~'' @ y"
  shows "a = b \<and> x = y"
proof -
  have "takeWhile (\<lambda>c. c \<noteq> CHR ''~'') (a @ ''~'' @ x) = a"
    using assms(1) by (simp add: takeWhile_before)
  moreover have "takeWhile (\<lambda>c. c \<noteq> CHR ''~'') (b @ ''~'' @ y) = b"
    using assms(2) by (simp add: takeWhile_before)
  ultimately have "a = b" using assms(3) by simp
  with assms(3) show ?thesis by simp
qed

lemma suffix_after_tilde:
  assumes "CHR ''~'' \<notin> set x" and "CHR ''~'' \<notin> set y" and "a @ ''~'' @ x = b @ ''~'' @ y"
  shows "a = b \<and> x = y"
proof -
  have "rev x @ ''~'' @ rev a = rev y @ ''~'' @ rev b"
    using arg_cong [OF assms(3), of rev] by simp
  moreover have "CHR ''~'' \<notin> set (rev x)" and "CHR ''~'' \<notin> set (rev y)"
    using assms(1,2) by simp_all
  ultimately have "rev x = rev y \<and> rev a = rev b"
    by (rule prefix_before_tilde [rotated 2])
  then show ?thesis by simp
qed

text \<open>
  C8, as the code has it: the key that \<open>getsetnx\<close> and \<open>update\<close> look up is the resource
  type, \<open>~\<close> and the resource id, whatever the other arguments are. Two pairs of type and
  id with the same key are the same pair when neither type contains \<open>~\<close>, or when neither
  id does; the code itself accepts \<open>~\<close> in both.
\<close>

theorem operationKey_injective_without_tilde:
  "(rid \<noteq> [] \<and> resourceType_allowed n (JStr rt) \<longrightarrow>
      hd (snd (getsetnx n (JStr rid) (JStr rt) args next)) = ClusterGet (operationKey rt rid) \<and>
      (v \<noteq> JUndefined \<longrightarrow>
         hd (snd (update n (JStr rid) (JStr rt) v next)) = ClusterGet (operationKey rt rid))) \<and>
   operationKey rt rid = rt @ ''~'' @ rid \<and>
   ((CHR ''~'' \<notin> set rt1 \<and> CHR ''~'' \<notin> set rt2 \<or> CHR ''~'' \<notin> set rid1 \<and> CHR ''~'' \<notin> set rid2) \<and>
    operationKey rt1 rid1 = operationKey rt2 rid2 \<longrightarrow> rt1 = rt2 \<and> rid1 = rid2)"
proof (intro conjI impI)
  assume valid: "rid \<noteq> [] \<and> resourceType_allowed n (JStr rt)"
  then show "hd (snd (getsetnx n (JStr rid) (JStr rt) args next)) = ClusterGet (operationKey rt rid)"
    by (simp add: getsetnx_def js_join_operationKey Let_def callbackQueue_add_def split: option.split)
  assume "v \<noteq> JUndefined"
  with valid show "hd (snd (update n (JStr rid) (JStr rt) v next)) = ClusterGet (operationKey rt rid)"
    by (simp add: update_def js_join_operationKey Let_def)
next
  show "operationKey rt rid = rt @ ''~'' @ rid"
    by (rule operationKey_append)
next
  assume h: "(CHR ''~'' \<notin> set rt1 \<and> CHR ''~'' \<notin> set rt2 \<or> CHR ''~'' \<notin> set rid1 \<and> CHR ''~'' \<notin> set rid2) \<and>
    operationKey rt1 rid1 = operationKey rt2 rid2"
  then have eq: "rt1 @ ''~'' @ rid1 = rt2 @ ''~'' @ rid2" by (simp add: operationKey_append)
  from h have both: "rt1 = rt2 \<and> rid1 = rid2"
    using prefix_before_tilde [OF _ _ eq] suffix_after_tilde [OF _ _ eq] by blast
  from both show "rt1 = rt2" by simp
  from both show "rid1 = rid2" by simp
qed

theorem operationKey_injective_without_tilde_witness:
  "''x'' \<noteq> [] \<and> resourceType_allowed leader_node (JStr ''counter'') \<and> JNum ''1'' \<noteq> JUndefined \<and>
   CHR ''~'' \<notin> set ''counter'' \<and> CHR ''~'' \<notin> set ''x'' \<and>
   operationKey ''counter'' ''x'' = ''counter~x'' \<and>
   hd (snd (getsetnx leader_node (JStr ''x'') (JStr ''counter'') [JNum ''7''] (Next 0))) =
     ClusterGet ''counter~x'' \<and>
   hd (snd (update leader_node (JStr ''x'') (JStr ''counter'') (JNum ''1'') (Next 0))) =
     ClusterGet ''counter~x''"
  using operationKey_injective_without_tilde
    [of "''x''" leader_node "''counter''" "[JNum ''7'']" "Next 0" "JNum ''1''"
        "''counter''" "''counter''" "''x''" "''x''"]
  by (simp add: operationKey_append leader_node_def node_eval)

text \<open>
  Distinct pairs can share a key: type \<open>a\<close> with id \<open>b~c\<close> and type \<open>a~b\<close> with id \<open>c\<close>
  both have the key \<open>a~b~c\<close>, and on a node where both types are attached \<open>getsetnx\<close>
  answers both from the one cached value.
\<close>

theorem operationKey_collision:
  "operationKey ''a'' ''b~c'' = operationKey ''a~b'' ''c'' \<and>
   (''a'', ''b~c'') \<noteq> (''a~b'', ''c'') \<and>
   snd (getsetnx tilde_node (JStr ''b~c'') (JStr ''a'') [] (Next 0)) =
     [ClusterGet ''a~b~c'', SetImmediate (Next 0) [JNull, JNum ''1'']] \<and>
   snd (getsetnx tilde_node (JStr ''c'') (JStr ''a~b'') [] (Next 1)) =
     [ClusterGet ''a~b~c'', SetImmediate (Next 1) [JNull, JNum ''1'']]"
  by (simp add: operationKey_append tilde_node_def leader_node_def node_eval)

end
